theory Spec2Isabelle
  imports Main "HOL-Library.AList"
begin

section \<open>Python string primitives used by \<^verbatim>\<open>content_bot.py\<close>\<close>

text \<open>
  Python strings are modelled as Isabelle strings, whose characters are the code points
  0..255. The tables below are those of CPython for this range: \<^verbatim>\<open>str.isspace\<close> (also
  used by \<^verbatim>\<open>str.strip\<close>, \<^verbatim>\<open>str.split\<close> without argument and the class \<^verbatim>\<open>\s\<close> of
  \<^verbatim>\<open>re\<close> on \<^verbatim>\<open>str\<close> patterns) holds of 9..13, 28..32, 133 and 160; \<^verbatim>\<open>str.lower\<close> maps
  65..90 and 192..222 (215 apart) to the code point 32 above and leaves the rest alone.
\<close>

definition nl :: char where
  "nl = CHR 0x0A"

definition py_isspace :: "char \<Rightarrow> bool" where
  "py_isspace c = (let n = (of_char c :: nat) in
     (9 \<le> n \<and> n \<le> 13) \<or> (28 \<le> n \<and> n \<le> 32) \<or> n = 133 \<or> n = 160)"

definition py_lower_char :: "char \<Rightarrow> char" where
  "py_lower_char c = (let n = (of_char c :: nat) in
     if (65 \<le> n \<and> n \<le> 90) \<or> (192 \<le> n \<and> n \<le> 222 \<and> n \<noteq> 215)
     then char_of (n + 32) else c)"

definition py_lower :: "string \<Rightarrow> string" where
  "py_lower s = map py_lower_char s"

text \<open>\<^verbatim>\<open>s.strip()\<close>: drop the whitespace at both ends.\<close>

definition py_strip :: "string \<Rightarrow> string" where
  "py_strip s = rev (dropWhile py_isspace (rev (dropWhile py_isspace s)))"

text \<open>\<^verbatim>\<open>s.split(sep)\<close> for a one-character separator: every occurrence splits, empty
  pieces are kept, and the empty string gives one empty piece.\<close>

fun py_split_on :: "char \<Rightarrow> string \<Rightarrow> string list" where
  "py_split_on sep [] = [[]]"
| "py_split_on sep (c # cs) =
     (if c = sep then [] # py_split_on sep cs
      else (case py_split_on sep cs of
              [] \<Rightarrow> [[c]]
            | p # ps \<Rightarrow> (c # p) # ps))"

text \<open>\<^verbatim>\<open>s.split()\<close>: the maximal runs of non-whitespace characters.\<close>

function py_split_ws :: "string \<Rightarrow> string list" where
  "py_split_ws s =
     (case dropWhile py_isspace s of
        [] \<Rightarrow> []
      | c # cs \<Rightarrow> (c # takeWhile (\<lambda>x. \<not> py_isspace x) cs)
                   # py_split_ws (dropWhile (\<lambda>x. \<not> py_isspace x) cs))"
  by pat_completeness auto
termination
proof (relation "measure length")
  show "wf (measure length)" by simp
next
  fix s :: string and c cs
  assume h: "dropWhile py_isspace s = c # cs"
  have "length (dropWhile (\<lambda>x. \<not> py_isspace x) cs) \<le> length cs"
    by (rule length_dropWhile_le)
  moreover have "length (dropWhile py_isspace s) \<le> length s"
    by (rule length_dropWhile_le)
  ultimately show "(dropWhile (\<lambda>x. \<not> py_isspace x) cs, s) \<in> measure length"
    using h by simp
qed

declare py_split_ws.simps [simp del]

text \<open>\<^verbatim>\<open>sep.join(xs)\<close>.\<close>

fun py_join :: "string \<Rightarrow> string list \<Rightarrow> string" where
  "py_join sep [] = []"
| "py_join sep [x] = x"
| "py_join sep (x # y # ys) = x @ sep @ py_join sep (y # ys)"

text \<open>\<^verbatim>\<open>sub in s\<close> for a one-character \<^verbatim>\<open>sub\<close>.\<close>

definition py_contains :: "char \<Rightarrow> string \<Rightarrow> bool" where
  "py_contains c s = (c \<in> set s)"

section \<open>The slug transform of \<^verbatim>\<open>generate_filename\<close>\<close>

text \<open>\<^verbatim>\<open>re.sub(r'[^a-z0-9\s-]', '', slug)\<close>: keep the characters of the class, drop the
  others.\<close>

definition slug_keep :: "char \<Rightarrow> bool" where
  "slug_keep c = (let n = (of_char c :: nat) in
     (97 \<le> n \<and> n \<le> 122) \<or> (48 \<le> n \<and> n \<le> 57) \<or> py_isspace c \<or> c = CHR ''-'')"

definition strip_special :: "string \<Rightarrow> string" where
  "strip_special s = filter slug_keep s"

text \<open>\<^verbatim>\<open>re.sub(r'\s+', '-', slug)\<close>: every maximal run of whitespace becomes one dash.\<close>

function dash_spaces :: "string \<Rightarrow> string" where
  "dash_spaces [] = []"
| "dash_spaces (c # cs) =
     (if py_isspace c then CHR ''-'' # dash_spaces (dropWhile py_isspace cs)
      else c # dash_spaces cs)"
  by pat_completeness auto
termination
proof (relation "measure length")
  show "wf (measure length)" by simp
next
  fix c :: char and cs :: string
  have "length (dropWhile py_isspace cs) \<le> length cs"
    by (rule length_dropWhile_le)
  then show "(dropWhile py_isspace cs, c # cs) \<in> measure length" by simp
next
  fix c :: char and cs :: string
  show "(cs, c # cs) \<in> measure length" by simp
qed

text \<open>The three lines \<^verbatim>\<open>slug = x.lower()\<close>, \<^verbatim>\<open>slug = re.sub(r'[^a-z0-9\s-]', '', slug)\<close>,
  \<^verbatim>\<open>slug = re.sub(r'\s+', '-', slug)\<close>, which \<^verbatim>\<open>generate_filename\<close> runs on the
  title and on the first words of an aphorism.\<close>

definition slugify :: "string \<Rightarrow> string" where
  "slugify x = dash_spaces (strip_special (py_lower x))"

section \<open>Python integers: \<^verbatim>\<open>int(text)\<close> and \<^verbatim>\<open>str(n)\<close>\<close>

text \<open>
  \<^verbatim>\<open>int(text)\<close> in base 10: whitespace at both ends is skipped (for \<^verbatim>\<open>int\<close> that is
  9..13, 32, 133 and 160, not 28..31), then an optional sign, then decimal digits in
  which single underscores may stand between two digits. Everything else raises
  \<^verbatim>\<open>ValueError\<close>, here \<open>None\<close>. Python integers are unbounded, hence \<open>int\<close>.
\<close>

definition int_space :: "char \<Rightarrow> bool" where
  "int_space c = (let n = (of_char c :: nat) in
     (9 \<le> n \<and> n \<le> 13) \<or> n = 32 \<or> n = 133 \<or> n = 160)"

definition is_digit :: "char \<Rightarrow> bool" where
  "is_digit c = (let n = (of_char c :: nat) in 48 \<le> n \<and> n \<le> 57)"

definition digit_val :: "char \<Rightarrow> int" where
  "digit_val c = int (of_char c) - 48"

fun parse_digits :: "int \<Rightarrow> string \<Rightarrow> int option" where
  "parse_digits acc [] = Some acc"
| "parse_digits acc [c] = (if is_digit c then Some (acc * 10 + digit_val c) else None)"
| "parse_digits acc (c # d # cs) =
     (if is_digit c then parse_digits (acc * 10 + digit_val c) (d # cs)
      else if c = CHR ''_'' \<and> is_digit d then parse_digits acc (d # cs)
      else None)"

definition parse_number :: "string \<Rightarrow> int option" where
  "parse_number s =
     (case s of
        [] \<Rightarrow> None
      | c # cs \<Rightarrow> if is_digit c then parse_digits 0 (c # cs) else None)"

definition py_int :: "string \<Rightarrow> int option" where
  "py_int text =
     (let t = rev (dropWhile int_space (rev (dropWhile int_space text))) in
      case t of
        [] \<Rightarrow> None
      | c # cs \<Rightarrow>
          if c = CHR ''-'' then map_option uminus (parse_number cs)
          else if c = CHR ''+'' then parse_number cs
          else parse_number (c # cs))"

fun digits_nat :: "nat \<Rightarrow> string" where
  "digits_nat n =
     (if n < 10 then [char_of (48 + n)]
      else digits_nat (n div 10) @ [char_of (48 + n mod 10)])"

declare digits_nat.simps [simp del]

definition py_str_int :: "int \<Rightarrow> string" where
  "py_str_int i = (if i < 0 then CHR ''-'' # digits_nat (nat (- i)) else digits_nat (nat i))"

section \<open>\<^verbatim>\<open>os.path\<close> on POSIX paths\<close>

text \<open>\<^verbatim>\<open>p.rfind(c)\<close>: the index of the last \<open>c\<close>, or \<open>-1\<close>.\<close>

fun rfind_aux :: "char \<Rightarrow> string \<Rightarrow> int \<Rightarrow> int \<Rightarrow> int" where
  "rfind_aux c [] i found = found"
| "rfind_aux c (x # xs) i found = rfind_aux c xs (i + 1) (if x = c then i else found)"

definition rfind :: "char \<Rightarrow> string \<Rightarrow> int" where
  "rfind c p = rfind_aux c p 0 (- 1)"

text \<open>
  \<^verbatim>\<open>os.path.splitext(p)\<close>: split at the last dot of the last path component, unless
  only dots stand before it in that component (leading dots belong to the root, so
  \<^verbatim>\<open>splitext('.md') == ('.md', '')\<close>).
\<close>

definition splitext :: "string \<Rightarrow> string \<times> string" where
  "splitext p =
     (let sepIndex = rfind CHR ''/'' p;
          dotIndex = rfind CHR ''.'' p
      in if dotIndex > sepIndex \<and>
            list_ex (\<lambda>ch. ch \<noteq> CHR ''.'')
              (take (nat (dotIndex - (sepIndex + 1))) (drop (nat (sepIndex + 1)) p))
         then (take (nat dotIndex) p, drop (nat dotIndex) p)
         else (p, []))"


section \<open>Exceptions\<close>

datatype error =
    NameError string
  | AttributeError
  | TypeError
  | KeyError string
  | ValueError
  | GitCommandError string
  | OtherError string

section \<open>The class \<^verbatim>\<open>ContentData\<close>\<close>

record ContentData =
  content_type :: string
  title :: "string option"
  description :: "string option"
  content :: "string option"
  tags :: "string list"
  read_time :: "int option"
  date :: string

text \<open>\<^verbatim>\<open>__init__\<close>; \<open>today\<close> is \<^verbatim>\<open>datetime.now().strftime("%Y-%m-%d")\<close>.\<close>

definition ContentData_init :: "string \<Rightarrow> string \<Rightarrow> ContentData" where
  "ContentData_init today ctype =
     \<lparr>content_type = ctype, title = None, description = None, content = None,
      tags = [], read_time = None, date = today\<rparr>"

text \<open>Truth value of an \<^verbatim>\<open>Optional[str]\<close> and of an \<^verbatim>\<open>Optional[int]\<close>: \<^verbatim>\<open>None\<close>, the
  empty string and \<open>0\<close> are false.\<close>

definition truthy_str :: "string option \<Rightarrow> bool" where
  "truthy_str v = (case v of None \<Rightarrow> False | Some s \<Rightarrow> s \<noteq> [])"

definition truthy_int :: "int option \<Rightarrow> bool" where
  "truthy_int v = (case v of None \<Rightarrow> False | Some n \<Rightarrow> n \<noteq> 0)"


definition REQUIRED_FIELDS :: "(string \<times> string list) list" where
  "REQUIRED_FIELDS =
     [(''blog'', [''title'', ''date'', ''description'']),
      (''essays'', [''title'', ''date'', ''description'', ''readTime'']),
      (''aphorisms'', [''content'', ''date''])]"

text \<open>\<^verbatim>\<open>REQUIRED_FIELDS.get(content_type, [])\<close>.\<close>

definition required_fields :: "string \<Rightarrow> string list" where
  "required_fields ctype = (case map_of REQUIRED_FIELDS ctype of None \<Rightarrow> [] | Some fs \<Rightarrow> fs)"

definition is_complete :: "ContentData \<Rightarrow> bool" where
  "is_complete c =
     (let required = required_fields (content_type c) in
      if ''title'' \<in> set required \<and> \<not> truthy_str (title c) then False
      else if ''description'' \<in> set required \<and> \<not> truthy_str (description c) then False
      else if ''content'' \<in> set required \<and> \<not> truthy_str (content c) then False
      else if ''readTime'' \<in> set required \<and> \<not> truthy_int (read_time c) then False
      else if \<not> truthy_str (content c) then False
      else True)"

text \<open>
  The values \<^verbatim>\<open>create_frontmatter\<close> stores in \<^verbatim>\<open>fm_data\<close>, and the dictionary itself
  as an association list in insertion order (\<open>AList.update\<close> is \<^verbatim>\<open>fm_data[k] = v\<close>).
\<close>

datatype yaml_value = YNull | YStr string | YInt int | YSeq "string list"

definition yaml_of_str :: "string option \<Rightarrow> yaml_value" where
  "yaml_of_str v = (case v of None \<Rightarrow> YNull | Some s \<Rightarrow> YStr s)"

definition yaml_of_int :: "int option \<Rightarrow> yaml_value" where
  "yaml_of_int v = (case v of None \<Rightarrow> YNull | Some n \<Rightarrow> YInt n)"

definition fm_data :: "ContentData \<Rightarrow> (string \<times> yaml_value) list" where
  "fm_data c =
     (let fm = [];
          fm = (if content_type c \<in> set [''blog'', ''essays'']
                then AList.update ''title'' (yaml_of_str (title c)) fm else fm);
          fm = (if content_type c = ''aphorisms''
                then AList.update ''content'' (yaml_of_str (content c)) fm else fm);
          fm = AList.update ''date'' (YStr (date c)) fm;
          fm = (if truthy_str (description c) \<and> content_type c \<in> set [''blog'', ''essays'']
                then AList.update ''description'' (yaml_of_str (description c)) fm else fm);
          fm = (if truthy_int (read_time c) \<and> content_type c = ''essays''
                then AList.update ''readTime'' (yaml_of_int (read_time c)) fm else fm);
          fm = (if tags c \<noteq> []
                then AList.update ''tags'' (YSeq (tags c)) fm else fm)
      in fm)"

text \<open>
  \<^verbatim>\<open>yaml.dump(fm_data, default_flow_style=False)\<close> belongs to the PyYAML library, not to
  this program: the functions that call it take it as the parameter \<open>dump\<close>.
\<close>

definition create_frontmatter ::
  "((string \<times> yaml_value) list \<Rightarrow> string) \<Rightarrow> ContentData \<Rightarrow> string" where
  "create_frontmatter dump c = ''---'' @ [nl] @ dump (fm_data c) @ ''---''"

text \<open>\<open>now\<close> is \<^verbatim>\<open>datetime.now().strftime('%Y%m%d-%H%M%S')\<close>, read by the fallback only.
  A method called on \<^verbatim>\<open>None\<close> raises \<^verbatim>\<open>AttributeError\<close>.\<close>

definition generate_filename :: "string \<Rightarrow> ContentData \<Rightarrow> error + string" where
  "generate_filename now c =
     (if content_type c \<in> set [''blog'', ''essays''] then
        (case title c of
           None \<Rightarrow> Inl AttributeError
         | Some t \<Rightarrow> Inr (slugify t @ ''.md''))
      else if content_type c = ''aphorisms'' then
        (case content c of
           None \<Rightarrow> Inl AttributeError
         | Some s \<Rightarrow>
             (let first_words = py_join '' '' (take 3 (py_split_ws s))
              in Inr (slugify first_words @ ''.md'')))
      else Inr (''content-'' @ now @ ''.md''))"

definition import_lines :: string where
  "import_lines =
     ''import Summary from '' @ [CHR 0x27] @ ''../../components/Summary.astro'' @ [CHR 0x27]
       @ '';'' @ [nl] @ ''import '' @ [CHR 0x27] @ ''uno.css'' @ [CHR 0x27] @ '';''"

text \<open>\<^verbatim>\<open>"<" in self.content\<close> raises \<^verbatim>\<open>TypeError\<close> when the content is \<^verbatim>\<open>None\<close>.\<close>

definition create_file_content ::
  "((string \<times> yaml_value) list \<Rightarrow> string) \<Rightarrow> ContentData \<Rightarrow> error + string" where
  "create_file_content dump c =
     (let frontmatter = create_frontmatter dump c in
      if content_type c = ''aphorisms'' then Inr frontmatter
      else
        (case content c of
           None \<Rightarrow> Inl TypeError
         | Some s \<Rightarrow>
             (let is_mdx = (py_contains CHR ''<'' s \<and> py_contains CHR ''>'' s) in
              if is_mdx
              then Inr (frontmatter @ [nl, nl] @ import_lines @ [nl, nl] @ s)
              else Inr (frontmatter @ [nl, nl] @ s))))"

definition get_file_extension :: "ContentData \<Rightarrow> error + string" where
  "get_file_extension c =
     (case content c of
        None \<Rightarrow> Inl TypeError
      | Some s \<Rightarrow>
          if py_contains CHR ''<'' s \<and> py_contains CHR ''>'' s \<and> content_type c \<noteq> ''aphorisms''
          then Inr ''mdx'' else Inr ''md'')"

definition get_full_filename :: "string \<Rightarrow> ContentData \<Rightarrow> error + string" where
  "get_full_filename now c =
     (case generate_filename now c of
        Inl e \<Rightarrow> Inl e
      | Inr base_filename \<Rightarrow>
          (let base_name = fst (splitext base_filename) in
           case get_file_extension c of
             Inl e \<Rightarrow> Inl e
           | Inr ext \<Rightarrow> Inr (base_name @ ''.'' @ ext)))"

section \<open>The conversation handlers\<close>

text \<open>
  Line 46 of the module binds six state names to \<^verbatim>\<open>range(6)\<close>. A handler's
  \<^verbatim>\<open>return NAME\<close> looks the name up in the module's globals when it runs, and raises
  \<^verbatim>\<open>NameError\<close> for a name that was never bound.
\<close>

definition state_constants :: "(string \<times> int) list" where
  "state_constants =
     zip [''CHOOSING_CONTENT_TYPE'', ''ENTERING_TITLE'', ''ENTERING_DESCRIPTION'',
          ''ENTERING_CONTENT'', ''ENTERING_TAGS'', ''CONFIRM'']
         (map int [0..<6])"

definition global_name :: "string \<Rightarrow> error + int" where
  "global_name n =
     (case map_of state_constants n of
        None \<Rightarrow> Inl (NameError n)
      | Some v \<Rightarrow> Inr v)"


text \<open>
  The messages a handler sends, one constructor for each text of the source with the
  values it interpolates; sending a message is taken to succeed.
  \<^item> \<open>Chosen_aphorism\<close>: \<^verbatim>\<open>You've chosen to create an aphorism. Please enter your aphorism text:\<close>
  \<^item> \<open>Chosen_post t\<close>: \<^verbatim>\<open>You've chosen to create a {t} post. Please enter the title:\<close>
  \<^item> \<open>Title_saved t\<close>: \<^verbatim>\<open>Title: {t}\<close>, then \<^verbatim>\<open>Now, please enter a description:\<close>
  \<^item> \<open>Ask_read_time\<close>: \<^verbatim>\<open>Description saved. Please enter estimated read time in minutes (just the number):\<close>
  \<^item> \<open>Ask_content t\<close>: \<^verbatim>\<open>Description saved. Now please enter the main content of your {t}:\<close>
  \<^item> \<open>Read_time_set n\<close>: \<^verbatim>\<open>Read time set to {n} minutes. Now please enter the main content of your essay:\<close>
  \<^item> \<open>Invalid_read_time\<close>: \<^verbatim>\<open>Please enter a valid number for read time:\<close>
  \<^item> \<open>Ask_tags\<close>: \<^verbatim>\<open>Content saved. Please enter tags as comma-separated values (or type 'skip' to skip):\<close>
  \<^item> \<open>Ask_confirm m\<close>: the text \<open>m\<close> with the buttons Confirm and Cancel
  \<^item> \<open>Canceled\<close>: \<^verbatim>\<open>Content creation canceled.\<close>
  \<^item> \<open>Saved_and_pushed f\<close>: \<^verbatim>\<open>Content saved and pushed to repository!\<close>, then \<^verbatim>\<open>File: {f}\<close>
  \<^item> \<open>Saved_locally f\<close>: \<^verbatim>\<open>Content saved locally, but there was an issue pushing to the repository.\<close>,
    then \<^verbatim>\<open>File: {f}\<close>
  \<^item> \<open>Save_error e\<close>: \<^verbatim>\<open>There was an error saving your content: {e}\<close>
\<close>

datatype reply =
    Chosen_aphorism
  | Chosen_post string
  | Title_saved string
  | Ask_read_time
  | Ask_content string
  | Read_time_set int
  | Invalid_read_time
  | Ask_tags
  | Ask_confirm string
  | Canceled
  | Saved_and_pushed string
  | Saved_locally string
  | Save_error error

text \<open>
  What a handler leaves behind: \<^verbatim>\<open>context.user_data.get("content_data")\<close> after its
  assignments, the messages sent, and the state returned or the exception raised. An
  attribute access on a missing \<^verbatim>\<open>content_data\<close> raises \<^verbatim>\<open>AttributeError\<close>.
\<close>

record handled =
  user_data :: "ContentData option"
  replies :: "reply list"
  returned :: "error + int"

definition content_type_chosen :: "string \<Rightarrow> string \<Rightarrow> handled" where
  "content_type_chosen today data =
     (let cd = ContentData_init today data in
      if data = ''aphorisms''
      then \<lparr>user_data = Some cd, replies = [Chosen_aphorism],
            returned = global_name ''ENTERING_CONTENT''\<rparr>
      else \<lparr>user_data = Some cd, replies = [Chosen_post data],
            returned = global_name ''ENTERING_TITLE''\<rparr>)"

definition title_entered :: "string \<Rightarrow> ContentData option \<Rightarrow> handled" where
  "title_entered text ud =
     (case ud of
        None \<Rightarrow> \<lparr>user_data = None, replies = [], returned = Inl AttributeError\<rparr>
      | Some cd \<Rightarrow>
          \<lparr>user_data = Some (cd\<lparr>title := Some text\<rparr>), replies = [Title_saved text],
           returned = global_name ''ENTERING_DESCRIPTION''\<rparr>)"

definition description_entered :: "string \<Rightarrow> ContentData option \<Rightarrow> handled" where
  "description_entered text ud =
     (case ud of
        None \<Rightarrow> \<lparr>user_data = None, replies = [], returned = Inl AttributeError\<rparr>
      | Some cd0 \<Rightarrow>
          (let cd = cd0\<lparr>description := Some text\<rparr> in
           if content_type cd = ''essays''
           then \<lparr>user_data = Some cd, replies = [Ask_read_time],
                 returned = global_name ''ENTERING_READ_TIME''\<rparr>
           else \<lparr>user_data = Some cd, replies = [Ask_content (content_type cd)],
                 returned = global_name ''ENTERING_CONTENT''\<rparr>))"

text \<open>\<^verbatim>\<open>int(update.message.text)\<close> is evaluated before the assignment; only
  \<^verbatim>\<open>ValueError\<close> is caught.\<close>

definition read_time_entered :: "string \<Rightarrow> ContentData option \<Rightarrow> handled" where
  "read_time_entered text ud =
     (case py_int text of
        None \<Rightarrow>
          \<lparr>user_data = ud, replies = [Invalid_read_time],
           returned = global_name ''ENTERING_READ_TIME''\<rparr>
      | Some n \<Rightarrow>
          (case ud of
             None \<Rightarrow> \<lparr>user_data = None, replies = [], returned = Inl AttributeError\<rparr>
           | Some cd \<Rightarrow>
               \<lparr>user_data = Some (cd\<lparr>read_time := Some n\<rparr>), replies = [Read_time_set n],
                returned = global_name ''ENTERING_CONTENT''\<rparr>))"

definition content_entered :: "string \<Rightarrow> ContentData option \<Rightarrow> handled" where
  "content_entered text ud =
     (case ud of
        None \<Rightarrow> \<lparr>user_data = None, replies = [], returned = Inl AttributeError\<rparr>
      | Some cd \<Rightarrow>
          \<lparr>user_data = Some (cd\<lparr>content := Some text\<rparr>), replies = [Ask_tags],
           returned = global_name ''ENTERING_TAGS''\<rparr>)"

text \<open>The text of the confirmation message; \<open>s\<close> is the content, which
  \<^verbatim>\<open>len(content_preview)\<close> needs to be a string.\<close>

definition confirmation :: "ContentData \<Rightarrow> string \<Rightarrow> string" where
  "confirmation cd s =
     ''Content Type: '' @ content_type cd @ [nl]
     @ (case title cd of
          Some t \<Rightarrow> if t \<noteq> [] then ''Title: '' @ t @ [nl] else []
        | None \<Rightarrow> [])
     @ (case description cd of
          Some d \<Rightarrow> if d \<noteq> [] then ''Description: '' @ d @ [nl] else []
        | None \<Rightarrow> [])
     @ (case read_time cd of
          Some n \<Rightarrow> if n \<noteq> 0 then ''Read Time: '' @ py_str_int n @ '' minutes'' @ [nl] else []
        | None \<Rightarrow> [])
     @ (if tags cd \<noteq> [] then ''Tags: '' @ py_join '', '' (tags cd) @ [nl] else [])
     @ [nl] @ ''Content Preview: ''
     @ (if length s > 100 then take 100 s @ ''...'' else s) @ [nl]"

definition tags_entered :: "string \<Rightarrow> ContentData option \<Rightarrow> handled" where
  "tags_entered text ud =
     (case ud of
        None \<Rightarrow> \<lparr>user_data = None, replies = [], returned = Inl AttributeError\<rparr>
      | Some cd0 \<Rightarrow>
          (let cd = (if py_lower text \<noteq> ''skip''
                     then cd0\<lparr>tags := map py_strip (py_split_on CHR '','' text)\<rparr>
                     else cd0)
           in case content cd of
                None \<Rightarrow> \<lparr>user_data = Some cd, replies = [], returned = Inl TypeError\<rparr>
              | Some s \<Rightarrow>
                  \<lparr>user_data = Some cd,
                   replies = [Ask_confirm (''Please confirm your submission:'' @ [nl, nl]
                                           @ confirmation cd s)],
                   returned = global_name ''CONFIRM''\<rparr>))"

section \<open>Publishing\<close>











section \<open>Definitions that follow the specification\<close>

text \<open>
  The specification's completeness: every field of the type's required-field set is
  populated, and so is the content. A string field is populated when it is set and not
  the empty string, the read time when it is set and not \<open>0\<close> (the specification's read
  time is a positive integer), the date when it is not the empty string. This is the
  definition \<open>is_complete\<close> is compared with.
\<close>

definition populated :: "ContentData \<Rightarrow> string \<Rightarrow> bool" where
  "populated c f =
     (if f = ''title'' then truthy_str (title c)
      else if f = ''description'' then truthy_str (description c)
      else if f = ''content'' then truthy_str (content c)
      else if f = ''readTime'' then truthy_int (read_time c)
      else if f = ''date'' then date c \<noteq> []
      else False)"

definition spec_complete :: "ContentData \<Rightarrow> bool" where
  "spec_complete c =
     ((\<forall>f \<in> set (required_fields (content_type c)). populated c f) \<and> populated c ''content'')"

text \<open>The characters a slug is made of: \<^verbatim>\<open>a-z\<close>, \<^verbatim>\<open>0-9\<close> and the dash.\<close>

definition slug_char :: "char \<Rightarrow> bool" where
  "slug_char c = (let n = (of_char c :: nat) in
     (97 \<le> n \<and> n \<le> 122) \<or> (48 \<le> n \<and> n \<le> 57) \<or> c = CHR ''-'')"

section \<open>Example records\<close>

definition essay_no_read_time :: ContentData where
  "essay_no_read_time =
     \<lparr>content_type = ''essays'', title = Some ''My Post'', description = Some ''desc'',
      content = Some ''Hello'', tags = [], read_time = None, date = ''2024-05-01''\<rparr>"

definition aphorism_kind :: ContentData where
  "aphorism_kind =
     \<lparr>content_type = ''aphorisms'', title = None, description = None,
      content = Some ''Be kind always'', tags = [], read_time = None, date = ''2024-05-01''\<rparr>"

definition blog_plain :: ContentData where
  "blog_plain =
     \<lparr>content_type = ''blog'', title = Some ''My Post'', description = Some ''desc'',
      content = Some ''Hello'', tags = [], read_time = None, date = ''2024-05-01''\<rparr>"

definition blog_markup :: ContentData where
  "blog_markup = blog_plain\<lparr>content := Some ''<Summary>Hi</Summary>''\<rparr>"

definition essay_titled :: ContentData where
  "essay_titled =
     \<lparr>content_type = ''essays'', title = Some ''My Post'', description = None,
      content = None, tags = [], read_time = None, date = ''2024-05-01''\<rparr>"

definition blog_punctuation :: ContentData where
  "blog_punctuation =
     \<lparr>content_type = ''blog'', title = Some ''!!!'', description = Some ''desc'',
      content = Some ''Hello'', tags = [], read_time = None, date = ''2024-05-01''\<rparr>"

definition essay_described :: ContentData where
  "essay_described = essay_titled\<lparr>description := Some ''desc''\<rparr>"




section \<open>Properties of the slug transform\<close>

lemma slug_char_dash: "slug_char CHR ''-''"
  by (simp add: slug_char_def)

lemma slug_char_not_space: "slug_char c \<Longrightarrow> \<not> py_isspace c"
  by (auto simp: slug_char_def py_isspace_def Let_def)

lemma slug_char_keep: "slug_char c \<Longrightarrow> slug_keep c"
  by (auto simp: slug_char_def slug_keep_def Let_def)

lemma slug_char_lower: "slug_char c \<Longrightarrow> py_lower_char c = c"
  by (auto simp: slug_char_def py_lower_char_def Let_def)

lemma keep_not_space: "slug_keep c \<Longrightarrow> \<not> py_isspace c \<Longrightarrow> slug_char c"
  by (auto simp: slug_char_def slug_keep_def Let_def)

lemma dash_spaces_chars:
  "\<forall>c \<in> set s. slug_keep c \<Longrightarrow> \<forall>c \<in> set (dash_spaces s). slug_char c"
proof (induction s rule: dash_spaces.induct)
  case 1
  then show ?case by simp
next
  case (2 c cs)
  show ?case
  proof (cases "py_isspace c")
    case True
    have "\<forall>x \<in> set (dropWhile py_isspace cs). slug_keep x"
      using "2.prems" by (auto dest: set_dropWhileD)
    with 2 True show ?thesis by (simp add: slug_char_dash)
  next
    case False
    with 2 show ?thesis by (simp add: keep_not_space)
  qed
qed

lemma dash_spaces_id: "\<forall>c \<in> set s. \<not> py_isspace c \<Longrightarrow> dash_spaces s = s"
  by (induction s) auto

lemma slugify_chars: "\<forall>c \<in> set (slugify x). slug_char c"
  unfolding slugify_def strip_special_def by (rule dash_spaces_chars) simp

lemma slugify_fixed:
  assumes h: "\<forall>c \<in> set s. slug_char c"
  shows "slugify s = s"
proof -
  have a: "py_lower s = s"
    unfolding py_lower_def using h by (simp add: slug_char_lower map_idI)
  have b: "strip_special s = s"
    unfolding strip_special_def using h by (simp add: slug_char_keep)
  have c: "dash_spaces s = s"
    using h by (simp add: dash_spaces_id slug_char_not_space)
  show ?thesis by (simp add: slugify_def a b c)
qed

text \<open>
  Claim C7. The slug transform (lower-case, drop every character outside
  \<^verbatim>\<open>[a-z0-9\s-]\<close>, turn each run of whitespace into one dash) is idempotent: a slug
  holds only \<^verbatim>\<open>a-z\<close>, \<^verbatim>\<open>0-9\<close> and dashes, and the transform leaves such a string as it
  is.
\<close>

theorem slugify_idempotent: "slugify (slugify x) = slugify x"
  by (rule slugify_fixed) (rule slugify_chars)

section \<open>Completeness of a record\<close>

lemma required_blog: "required_fields ''blog'' = [''title'', ''date'', ''description'']"
  by (simp add: required_fields_def REQUIRED_FIELDS_def)

lemma required_essays:
  "required_fields ''essays'' = [''title'', ''date'', ''description'', ''readTime'']"
  by (simp add: required_fields_def REQUIRED_FIELDS_def)

lemma required_aphorisms: "required_fields ''aphorisms'' = [''content'', ''date'']"
  by (simp add: required_fields_def REQUIRED_FIELDS_def)

lemma is_complete_blog:
  assumes "content_type c = ''blog''" and "date c \<noteq> []"
  shows "is_complete c = spec_complete c"
  using assms by (auto simp: is_complete_def spec_complete_def populated_def required_blog)

lemma is_complete_essays:
  assumes "content_type c = ''essays''" and "date c \<noteq> []"
  shows "is_complete c = spec_complete c"
  using assms by (auto simp: is_complete_def spec_complete_def populated_def required_essays)

lemma is_complete_aphorisms:
  assumes "content_type c = ''aphorisms''" and "date c \<noteq> []"
  shows "is_complete c = spec_complete c"
  using assms by (auto simp: is_complete_def spec_complete_def populated_def required_aphorisms)

lemma essay_without_read_time:
  assumes "content_type c = ''essays''" and "read_time c = None"
  shows "\<not> is_complete c"
  using assms by (simp add: is_complete_def required_essays truthy_int_def)

text \<open>
  Claim C2. For a record of type blog, essays or aphorisms (whose date, set by the
  constructor, is not empty), \<open>is_complete\<close> is true exactly when every field of the
  type's entry in \<open>REQUIRED_FIELDS\<close> is populated and the content is populated; an essay
  without a read time is not complete.
\<close>

theorem is_complete_iff_required_populated:
  assumes "content_type c \<in> {''blog'', ''essays'', ''aphorisms''}" and "date c \<noteq> []"
  shows "(is_complete c \<longleftrightarrow>
            (\<forall>f \<in> set (required_fields (content_type c)). populated c f) \<and> populated c ''content'')
         \<and> (content_type c = ''essays'' \<and> read_time c = None \<longrightarrow> \<not> is_complete c)"
proof -
  have "is_complete c = spec_complete c"
    using assms is_complete_blog is_complete_essays is_complete_aphorisms by blast
  then have 1: "is_complete c \<longleftrightarrow>
      (\<forall>f \<in> set (required_fields (content_type c)). populated c f) \<and> populated c ''content''"
    unfolding spec_complete_def .
  have 2: "content_type c = ''essays'' \<and> read_time c = None \<longrightarrow> \<not> is_complete c"
    using essay_without_read_time by blast
  from 1 2 show ?thesis by (rule conjI)
qed

theorem is_complete_iff_required_populated_witness:
  "content_type essay_no_read_time \<in> {''blog'', ''essays'', ''aphorisms''}
   \<and> date essay_no_read_time \<noteq> []
   \<and> read_time essay_no_read_time = None
   \<and> \<not> populated essay_no_read_time ''readTime''
   \<and> \<not> is_complete essay_no_read_time
   \<and> is_complete (essay_no_read_time\<lparr>read_time := Some 5\<rparr>)"
proof -
  have a: "content_type essay_no_read_time \<in> {''blog'', ''essays'', ''aphorisms''}"
    by (simp add: essay_no_read_time_def)
  have b: "date essay_no_read_time \<noteq> []"
    by (simp add: essay_no_read_time_def)
  have c: "content_type essay_no_read_time = ''essays'' \<and> read_time essay_no_read_time = None"
    by (simp add: essay_no_read_time_def)
  have d: "\<not> populated essay_no_read_time ''readTime''"
    by (simp add: essay_no_read_time_def populated_def truthy_int_def)
  have e: "\<not> is_complete essay_no_read_time"
    using is_complete_iff_required_populated [OF a b] c by blast
  have a': "content_type (essay_no_read_time\<lparr>read_time := Some 5\<rparr>) \<in> {''blog'', ''essays'', ''aphorisms''}"
    by (simp add: essay_no_read_time_def)
  have b': "date (essay_no_read_time\<lparr>read_time := Some 5\<rparr>) \<noteq> []"
    by (simp add: essay_no_read_time_def)
  have f: "(\<forall>f \<in> set (required_fields (content_type (essay_no_read_time\<lparr>read_time := Some 5\<rparr>))).
              populated (essay_no_read_time\<lparr>read_time := Some 5\<rparr>) f)
           \<and> populated (essay_no_read_time\<lparr>read_time := Some 5\<rparr>) ''content''"
    by (simp add: essay_no_read_time_def required_essays populated_def truthy_str_def truthy_int_def)
  have g: "is_complete (essay_no_read_time\<lparr>read_time := Some 5\<rparr>)"
    using is_complete_iff_required_populated [OF a' b'] f by blast
  show ?thesis using a b c d e g by blast
qed

section \<open>Tags\<close>

lemma py_split_on_not_Nil: "py_split_on sep s \<noteq> []"
  by (induction s) (auto split: list.splits)

lemma py_split_on_append:
  "py_split_on sep (xs @ sep # ys) = py_split_on sep xs @ py_split_on sep ys"
proof (induction xs)
  case Nil
  then show ?case by simp
next
  case (Cons x xs)
  show ?case
  proof (cases "x = sep")
    case True
    with Cons show ?thesis by simp
  next
    case False
    obtain p ps where ps: "py_split_on sep xs = p # ps"
      using py_split_on_not_Nil [of sep xs] by (cases "py_split_on sep xs") auto
    with Cons False show ?thesis by simp
  qed
qed

lemma py_strip_Nil: "py_strip [] = []"
  by (simp add: py_strip_def)

lemma split_double_comma:
  "map py_strip (py_split_on CHR '','' (xs @ '',,'' @ ys)) =
   map py_strip (py_split_on CHR '','' xs) @ [[]] @ map py_strip (py_split_on CHR '','' ys)"
proof -
  have "py_split_on CHR '','' (xs @ CHR '','' # (CHR '','' # ys)) =
        py_split_on CHR '','' xs @ py_split_on CHR '','' (CHR '','' # ys)"
    by (rule py_split_on_append)
  then show ?thesis by (simp add: py_strip_Nil)
qed

lemma tags_example: "map py_strip (py_split_on CHR '','' ''a, b ,c'') = [''a'', ''b'', ''c'']"
  by code_simp

lemma tags_entered_user_data:
  "user_data (tags_entered s (Some cd)) =
     Some (if py_lower s = ''skip'' then cd
           else cd\<lparr>tags := map py_strip (py_split_on CHR '','' s)\<rparr>)"
  by (simp add: tags_entered_def Let_def split: option.splits)

text \<open>
  Claim C4. For every input \<open>s\<close> of \<open>tags_entered\<close>: when \<open>s\<close> lower-cased is
  \<^verbatim>\<open>skip\<close> the record is left as it is, so tags that were the empty list stay the empty
  list; otherwise the tags become the pieces of \<open>s\<close> between its commas, each stripped
  of whitespace at both ends. Two consecutive commas give an empty string between the
  tags of the text before them and the tags of the text after them, and \<^verbatim>\<open>a, b ,c\<close>
  gives \<^verbatim>\<open>a\<close>, \<^verbatim>\<open>b\<close>, \<^verbatim>\<open>c\<close>.
\<close>

theorem tags_entered_tags:
  "user_data (tags_entered s (Some cd)) =
     Some (if py_lower s = ''skip'' then cd
           else cd\<lparr>tags := map py_strip (py_split_on CHR '','' s)\<rparr>)
   \<and> (py_lower s = ''skip'' \<and> tags cd = [] \<longrightarrow>
        map_option tags (user_data (tags_entered s (Some cd))) = Some [])
   \<and> map py_strip (py_split_on CHR '','' (xs @ '',,'' @ ys)) =
       map py_strip (py_split_on CHR '','' xs) @ [[]] @ map py_strip (py_split_on CHR '','' ys)
   \<and> map py_strip (py_split_on CHR '','' ''a, b ,c'') = [''a'', ''b'', ''c'']"
proof -
  have 1: "user_data (tags_entered s (Some cd)) =
     Some (if py_lower s = ''skip'' then cd
           else cd\<lparr>tags := map py_strip (py_split_on CHR '','' s)\<rparr>)"
    by (rule tags_entered_user_data)
  have 2: "py_lower s = ''skip'' \<and> tags cd = [] \<longrightarrow>
        map_option tags (user_data (tags_entered s (Some cd))) = Some []"
    by (simp add: tags_entered_user_data)
  show ?thesis using 1 2 split_double_comma tags_example by blast
qed

theorem tags_entered_tags_witness:
  "py_lower ''SkIp'' = ''skip'' \<and> tags blog_plain = []
   \<and> map_option tags (user_data (tags_entered ''SkIp'' (Some blog_plain))) = Some []
   \<and> map_option tags (user_data (tags_entered ''a, b ,c'' (Some blog_plain))) = Some [''a'', ''b'', ''c'']
   \<and> map_option tags (user_data (tags_entered ''a,, b'' (Some blog_plain))) = Some [''a'', [], ''b'']"
proof -
  have a: "py_lower ''SkIp'' = ''skip''" by code_simp
  have b: "tags blog_plain = []" by (simp add: blog_plain_def)
  have c: "map_option tags (user_data (tags_entered ''SkIp'' (Some blog_plain))) = Some []"
    using tags_entered_tags [of "''SkIp''" blog_plain "[]" "[]"] a b by blast
  have d: "py_lower ''a, b ,c'' \<noteq> ''skip''" by code_simp
  have e: "map_option tags (user_data (tags_entered ''a, b ,c'' (Some blog_plain))) = Some [''a'', ''b'', ''c'']"
    using tags_entered_tags [of "''a, b ,c''" blog_plain "[]" "[]"] d by simp
  have f: "py_lower ''a,, b'' \<noteq> ''skip''" by code_simp
  have g: "map py_strip (py_split_on CHR '','' ''a,, b'') = [''a'', [], ''b'']" by code_simp
  have h: "map_option tags (user_data (tags_entered ''a,, b'' (Some blog_plain))) = Some [''a'', [], ''b'']"
    using tags_entered_tags [of "''a,, b''" blog_plain "[]" "[]"] f g by simp
  show ?thesis using a b c e h by blast
qed

section \<open>File body and extension\<close>

text \<open>
  Claim C5. For a blog or essay record with content \<open>s\<close>: when \<open>s\<close> holds a \<^verbatim>\<open><\<close> and a
  \<^verbatim>\<open>>\<close>, the file body is the frontmatter block, an empty line, the two import lines, an
  empty line and \<open>s\<close>, and the extension is \<^verbatim>\<open>mdx\<close>; otherwise the body is the
  frontmatter block, an empty line and \<open>s\<close>, and the extension is \<^verbatim>\<open>md\<close>. For an
  aphorism the extension is \<^verbatim>\<open>md\<close> whatever the content.
\<close>

theorem body_and_extension:
  assumes "content c = Some s"
  shows "(content_type c \<in> {''blog'', ''essays''} \<longrightarrow>
           (if CHR ''<'' \<in> set s \<and> CHR ''>'' \<in> set s
            then create_file_content dump c =
                   Inr (create_frontmatter dump c @ [nl, nl] @ import_lines @ [nl, nl] @ s)
                 \<and> get_file_extension c = Inr ''mdx''
            else create_file_content dump c = Inr (create_frontmatter dump c @ [nl, nl] @ s)
                 \<and> get_file_extension c = Inr ''md''))
         \<and> (content_type c = ''aphorisms'' \<longrightarrow> get_file_extension c = Inr ''md'')"
  using assms
  by (auto simp: create_file_content_def get_file_extension_def py_contains_def Let_def)

theorem body_and_extension_witness:
  "content blog_markup = Some ''<Summary>Hi</Summary>''
   \<and> content_type blog_markup \<in> {''blog'', ''essays''}
   \<and> (\<forall>dump. create_file_content dump blog_markup =
         Inr (create_frontmatter dump blog_markup @ [nl, nl] @ import_lines @ [nl, nl]
              @ ''<Summary>Hi</Summary>''))
   \<and> get_file_extension blog_markup = Inr ''mdx''
   \<and> get_file_extension blog_plain = Inr ''md''
   \<and> get_file_extension (aphorism_kind\<lparr>content := Some ''<b>Be kind</b>''\<rparr>) = Inr ''md''"
proof -
  have a: "content blog_markup = Some ''<Summary>Hi</Summary>''"
    by (simp add: blog_markup_def)
  have b: "content_type blog_markup \<in> {''blog'', ''essays''}"
    by (simp add: blog_markup_def blog_plain_def)
  have c: "CHR ''<'' \<in> set ''<Summary>Hi</Summary>'' \<and> CHR ''>'' \<in> set ''<Summary>Hi</Summary>''"
    by simp
  have d: "create_file_content dump blog_markup =
         Inr (create_frontmatter dump blog_markup @ [nl, nl] @ import_lines @ [nl, nl]
              @ ''<Summary>Hi</Summary>'')
       \<and> get_file_extension blog_markup = Inr ''mdx''" for dump
    using body_and_extension [OF a, of dump] b c by presburger
  have e: "content blog_plain = Some ''Hello''" by (simp add: blog_plain_def)
  have f: "content_type blog_plain \<in> {''blog'', ''essays''}" by (simp add: blog_plain_def)
  have g: "\<not> (CHR ''<'' \<in> set ''Hello'' \<and> CHR ''>'' \<in> set ''Hello'')" by simp
  have h: "get_file_extension blog_plain = Inr ''md''"
    using body_and_extension [OF e, of "\<lambda>fm. []"] f g by presburger
  have i: "content (aphorism_kind\<lparr>content := Some ''<b>Be kind</b>''\<rparr>) = Some ''<b>Be kind</b>''"
    by simp
  have j: "content_type (aphorism_kind\<lparr>content := Some ''<b>Be kind</b>''\<rparr>) = ''aphorisms''"
    by (simp add: aphorism_kind_def)
  have k: "get_file_extension (aphorism_kind\<lparr>content := Some ''<b>Be kind</b>''\<rparr>) = Inr ''md''"
    using body_and_extension [OF i, of "\<lambda>fm. []"] j by blast
  show ?thesis using a b d h k by blast
qed

section \<open>Splitting the extension off a slug\<close>

lemma splitext_dot_md: "splitext ''.md'' = (''.md'', [])"
  by code_simp

lemma generate_filename_blog:
  "content_type c \<in> {''blog'', ''essays''} \<Longrightarrow> title c = Some t \<Longrightarrow>
   generate_filename now c = Inr (slugify t @ ''.md'')"
  by (auto simp: generate_filename_def)

lemma rfind_aux_absent: "c \<notin> set xs \<Longrightarrow> rfind_aux c xs i found = found"
  by (induction xs arbitrary: i found) auto

lemma rfind_aux_last:
  "c \<notin> set ys \<Longrightarrow> rfind_aux c (xs @ c # ys) i found = i + int (length xs)"
  by (induction xs arbitrary: i found) (auto simp: rfind_aux_absent)

lemma slug_char_not_dot: "slug_char c \<Longrightarrow> c \<noteq> CHR ''.'' \<and> c \<noteq> CHR ''/''"
  by (auto simp: slug_char_def)

lemma splitext_slug:
  assumes "\<forall>c \<in> set s. slug_char c" and "s \<noteq> []"
  shows "splitext (s @ ''.md'') = (s, ''.md'')"
proof -
  have dot: "rfind CHR ''.'' (s @ ''.md'') = int (length s)"
    unfolding rfind_def using rfind_aux_last [of "CHR ''.''" "''md''" s 0 "- 1"] by simp
  have "CHR ''/'' \<notin> set (s @ ''.md'')"
    using assms(1) slug_char_not_dot by auto
  then have sep: "rfind CHR ''/'' (s @ ''.md'') = - 1"
    unfolding rfind_def by (rule rfind_aux_absent)
  obtain c cs where s: "s = c # cs" using assms(2) by (cases s) auto
  have "c \<noteq> CHR ''.''" using assms(1) s slug_char_not_dot by auto
  then have ex: "list_ex (\<lambda>ch. ch \<noteq> CHR ''.'') s" by (simp add: s)
  show ?thesis
    by (simp add: splitext_def dot sep ex)
qed

lemma splitext_slugify:
  "fst (splitext (slugify x @ ''.md'')) = (if slugify x = [] then ''.md'' else slugify x)"
proof (cases "slugify x = []")
  case True
  then show ?thesis by (simp add: splitext_dot_md)
next
  case False
  then show ?thesis using splitext_slug [OF slugify_chars False] by simp
qed

lemma get_full_filename_post:
  assumes "content_type c \<in> {''blog'', ''essays''}" and "title c = Some t"
    and "content c = Some s"
  shows "get_full_filename now c =
           Inr ((if slugify t = [] then ''.md'' else slugify t) @ ''.''
                @ (if CHR ''<'' \<in> set s \<and> CHR ''>'' \<in> set s then ''mdx'' else ''md''))"
proof -
  have g: "generate_filename now c = Inr (slugify t @ ''.md'')"
    using assms(1,2) by (rule generate_filename_blog)
  have e: "get_file_extension c =
             Inr (if CHR ''<'' \<in> set s \<and> CHR ''>'' \<in> set s then ''mdx'' else ''md'')"
    using assms(1,3) by (auto simp: get_file_extension_def py_contains_def)
  show ?thesis
    by (simp add: get_full_filename_def g e splitext_slugify)
qed


section \<open>Aphorisms\<close>




section \<open>The read time\<close>

lemma is_digit_char_of: "(k::nat) < 10 \<Longrightarrow> is_digit (char_of (48 + k))"
  by (simp add: is_digit_def)

lemma digit_val_char_of: "(k::nat) < 10 \<Longrightarrow> digit_val (char_of (48 + k)) = int k"
  by (simp add: digit_val_def)

lemma digits_nat_all_digits: "\<forall>c \<in> set (digits_nat n). is_digit c"
proof (induction n rule: digits_nat.induct)
  case (1 n)
  show ?case
  proof (cases "n < 10")
    case True
    then show ?thesis by (subst digits_nat.simps) (simp add: is_digit_char_of)
  next
    case False
    have "n mod 10 < 10" by simp
    then have "is_digit (char_of (48 + n mod 10))" by (rule is_digit_char_of)
    with 1 False show ?thesis by (subst digits_nat.simps) simp
  qed
qed

lemma digits_nat_not_Nil: "digits_nat n \<noteq> []"
  by (subst digits_nat.simps) simp

lemma parse_digits_all_digits:
  "ds \<noteq> [] \<Longrightarrow> \<forall>c \<in> set ds. is_digit c \<Longrightarrow>
   parse_digits acc ds = Some (foldl (\<lambda>a c. a * 10 + digit_val c) acc ds)"
proof (induction ds arbitrary: acc)
  case Nil
  then show ?case by simp
next
  case (Cons c ds)
  show ?case
  proof (cases ds)
    case Nil
    with Cons.prems show ?thesis by simp
  next
    case (Cons d cs)
    with Cons.prems Cons.IH [of "acc * 10 + digit_val c"] show ?thesis by simp
  qed
qed

lemma foldl_digits_nat: "foldl (\<lambda>a c. a * 10 + digit_val c) 0 (digits_nat n) = int n"
proof (induction n rule: digits_nat.induct)
  case (1 n)
  show ?case
  proof (cases "n < 10")
    case True
    then show ?thesis by (subst digits_nat.simps) (simp add: digit_val_char_of)
  next
    case False
    have "digit_val (char_of (48 + n mod 10)) = int (n mod 10)"
      by (rule digit_val_char_of) simp
    moreover have "int (n div 10) * 10 + int (n mod 10) = int n"
      by (simp add: zmod_int zdiv_int)
    ultimately show ?thesis
      using 1 False by (subst digits_nat.simps) simp
  qed
qed

lemma parse_number_digits_nat: "parse_number (digits_nat n) = Some (int n)"
proof -
  obtain c cs where ds: "digits_nat n = c # cs"
    using digits_nat_not_Nil [of n] by (cases "digits_nat n") auto
  have dig: "\<forall>x \<in> set (c # cs). is_digit x"
    using digits_nat_all_digits [of n] ds by simp
  have "parse_digits 0 (c # cs) = Some (foldl (\<lambda>a c. a * 10 + digit_val c) 0 (c # cs))"
    by (rule parse_digits_all_digits) (simp, rule dig)
  then have "parse_digits 0 (c # cs) = Some (int n)"
    using foldl_digits_nat [of n] ds by simp
  then show ?thesis using dig by (simp add: parse_number_def ds)
qed

lemma digit_not_space: "is_digit c \<Longrightarrow> \<not> int_space c"
  by (auto simp: is_digit_def int_space_def Let_def)

lemma digit_not_sign: "is_digit c \<Longrightarrow> c \<noteq> CHR ''-'' \<and> c \<noteq> CHR ''+''"
  by (auto simp: is_digit_def)

lemma strip_unchanged:
  assumes "s \<noteq> []" and "\<not> int_space (hd s)" and "\<not> int_space (last s)"
  shows "rev (dropWhile int_space (rev (dropWhile int_space s))) = s"
proof -
  have a: "dropWhile int_space s = s"
    using assms(1,2) by (cases s) auto
  have "rev s \<noteq> []" and "\<not> int_space (hd (rev s))"
    using assms(1,3) by (simp_all add: hd_rev)
  then have "dropWhile int_space (rev s) = rev s"
    by (cases "rev s") auto
  with a show ?thesis by simp
qed

lemma last_digits_nat: "is_digit (last (digits_nat n))"
  using digits_nat_all_digits [of n] digits_nat_not_Nil [of n] last_in_set by blast

lemma hd_digits_nat: "is_digit (hd (digits_nat n))"
  using digits_nat_all_digits [of n] digits_nat_not_Nil [of n] hd_in_set by blast

lemma py_int_py_str_int: "py_int (py_str_int n) = Some n"
proof (cases "n < 0")
  case True
  let ?ds = "digits_nat (nat (- n))"
  have "rev (dropWhile int_space (rev (dropWhile int_space (CHR ''-'' # ?ds)))) = CHR ''-'' # ?ds"
  proof (rule strip_unchanged)
    show "CHR ''-'' # ?ds \<noteq> []" by simp
    show "\<not> int_space (hd (CHR ''-'' # ?ds))" by (simp add: int_space_def)
    show "\<not> int_space (last (CHR ''-'' # ?ds))"
      using last_digits_nat [of "nat (- n)"] digits_nat_not_Nil [of "nat (- n)"]
      by (simp add: digit_not_space)
  qed
  then have "py_int (CHR ''-'' # ?ds) = map_option uminus (parse_number ?ds)"
    by (simp add: py_int_def)
  with True show ?thesis
    by (simp add: py_str_int_def parse_number_digits_nat)
next
  case False
  let ?ds = "digits_nat (nat n)"
  obtain c cs where ds: "?ds = c # cs"
    using digits_nat_not_Nil [of "nat n"] by (cases ?ds) auto
  have c: "is_digit c" using hd_digits_nat [of "nat n"] ds by simp
  have "rev (dropWhile int_space (rev (dropWhile int_space ?ds))) = ?ds"
  proof (rule strip_unchanged)
    show "?ds \<noteq> []" by (rule digits_nat_not_Nil)
    show "\<not> int_space (hd ?ds)" using hd_digits_nat by (rule digit_not_space)
    show "\<not> int_space (last ?ds)" using last_digits_nat by (rule digit_not_space)
  qed
  then have "py_int ?ds = parse_number ?ds"
    using digit_not_sign [OF c] by (simp add: py_int_def ds)
  with False show ?thesis
    by (simp add: py_str_int_def parse_number_digits_nat)
qed

lemma entering_content_bound: "global_name ''ENTERING_CONTENT'' = Inr 3"
  by code_simp

lemma read_time_entered_parsed:
  "py_int text = Some n \<Longrightarrow>
   read_time_entered text (Some cd) =
     \<lparr>user_data = Some (cd\<lparr>read_time := Some n\<rparr>), replies = [Read_time_set n],
      returned = Inr 3\<rparr>"
  by (simp add: read_time_entered_def entering_content_bound)

lemma essay_zero_incomplete:
  "content_type c = ''essays'' \<Longrightarrow> read_time c = Some 0 \<Longrightarrow> \<not> is_complete c"
  by (simp add: is_complete_def required_essays truthy_int_def)

lemma fm_data_keys:
  "fst ` set (fm_data c) \<subseteq>
     {''title'', ''content'', ''date'', ''description'', ''tags''}
     \<union> (if truthy_int (read_time c) \<and> content_type c = ''essays'' then {''readTime''} else {})"
  by (auto simp: fm_data_def Let_def)

lemma zero_omits_read_time:
  assumes "read_time c = Some 0"
  shows "''readTime'' \<notin> fst ` set (fm_data c)"
proof -
  have "\<not> truthy_int (read_time c)" using assms by (simp add: truthy_int_def)
  then have "fst ` set (fm_data c) \<subseteq> {''title'', ''content'', ''date'', ''description'', ''tags''}"
    using fm_data_keys [of c] by simp
  then show ?thesis by auto
qed

text \<open>
  Claim C9. Whenever \<^verbatim>\<open>int\<close> parses the text, \<open>read_time_entered\<close> stores the number,
  whatever its sign, and returns \<^verbatim>\<open>ENTERING_CONTENT\<close> (which is 3); the decimal text of
  every non-positive integer parses to that integer, and \<^verbatim>\<open>0\<close> parses to 0. An essay
  whose read time is 0 is not complete, and the frontmatter mapping of a record whose
  read time is 0 has no \<^verbatim>\<open>readTime\<close> key. (A negative read time is true in Python: it
  does not make \<open>is_complete\<close> false and it is written to the frontmatter.)
\<close>

theorem non_positive_read_time:
  "(py_int text = Some n \<longrightarrow>
      read_time_entered text (Some cd) =
        \<lparr>user_data = Some (cd\<lparr>read_time := Some n\<rparr>), replies = [Read_time_set n],
         returned = Inr 3\<rparr>)
   \<and> global_name ''ENTERING_CONTENT'' = Inr 3
   \<and> (n \<le> 0 \<longrightarrow> py_int (py_str_int n) = Some n)
   \<and> py_int ''0'' = Some 0
   \<and> (content_type c = ''essays'' \<and> read_time c = Some 0 \<longrightarrow> \<not> is_complete c)
   \<and> (read_time c = Some 0 \<longrightarrow> ''readTime'' \<notin> fst ` set (fm_data c))"
proof -
  have z: "py_int ''0'' = Some 0" by code_simp
  show ?thesis
    using read_time_entered_parsed entering_content_bound py_int_py_str_int z
      essay_zero_incomplete zero_omits_read_time
    by blast
qed

theorem non_positive_read_time_witness:
  "py_int ''0'' = Some 0
   \<and> read_time_entered ''0'' (Some essay_described) =
       \<lparr>user_data = Some (essay_described\<lparr>read_time := Some 0\<rparr>),
        replies = [Read_time_set 0], returned = Inr 3\<rparr>
   \<and> py_int (py_str_int (- 5)) = Some (- 5)
   \<and> content_type (essay_described\<lparr>read_time := Some 0, content := Some ''Hello''\<rparr>) = ''essays''
   \<and> read_time (essay_described\<lparr>read_time := Some 0, content := Some ''Hello''\<rparr>) = Some 0
   \<and> \<not> is_complete (essay_described\<lparr>read_time := Some 0, content := Some ''Hello''\<rparr>)
   \<and> ''readTime'' \<notin> fst ` set (fm_data (essay_described\<lparr>read_time := Some 0, content := Some ''Hello''\<rparr>))"
proof -
  let ?c = "essay_described\<lparr>read_time := Some 0, content := Some ''Hello''\<rparr>"
  note t = non_positive_read_time [of "''0''" 0 essay_described ?c]
  note u = non_positive_read_time [of "''0''" "- 5" essay_described ?c]
  have a: "py_int ''0'' = Some 0" using t by blast
  have b: "read_time_entered ''0'' (Some essay_described) =
       \<lparr>user_data = Some (essay_described\<lparr>read_time := Some 0\<rparr>),
        replies = [Read_time_set 0], returned = Inr 3\<rparr>"
    using t a by blast
  have c: "py_int (py_str_int (- 5)) = Some (- 5)" using u by simp
  have d: "content_type ?c = ''essays''"
    by (simp add: essay_described_def essay_titled_def)
  have e: "read_time ?c = Some 0" by simp
  have f: "\<not> is_complete ?c" using t d e by blast
  have g: "''readTime'' \<notin> fst ` set (fm_data ?c)" using t e by blast
  from a b c d e f g show ?thesis by blast
qed

section \<open>The state after the description\<close>

lemma entering_read_time_unbound: "map_of state_constants ''ENTERING_READ_TIME'' = None"
  by code_simp

lemma description_entered_essay:
  assumes "content_type cd = ''essays''"
  shows "description_entered text (Some cd) =
     \<lparr>user_data = Some (cd\<lparr>description := Some text\<rparr>), replies = [Ask_read_time],
      returned = Inl (NameError ''ENTERING_READ_TIME'')\<rparr>"
  using assms
  by (simp add: description_entered_def Let_def global_name_def entering_read_time_unbound)

lemma read_time_entered_invalid:
  assumes "py_int text = None"
  shows "read_time_entered text ud =
     \<lparr>user_data = ud, replies = [Invalid_read_time],
      returned = Inl (NameError ''ENTERING_READ_TIME'')\<rparr>"
  using assms
  by (simp add: read_time_entered_def global_name_def entering_read_time_unbound)

text \<open>
  Claim C1, at the inputs where the code departs from it. The module binds no
  \<^verbatim>\<open>ENTERING_READ_TIME\<close>. For an essay, \<open>description_entered\<close> stores the description
  and sends the read-time prompt, then raises \<^verbatim>\<open>NameError\<close> instead of returning a
  state; \<open>read_time_entered\<close> on \<^verbatim>\<open>abc\<close> leaves the record as it is and sends the
  re-prompt, then raises \<^verbatim>\<open>NameError\<close> as well. On \<^verbatim>\<open>5\<close> it stores 5 and returns
  \<^verbatim>\<open>ENTERING_CONTENT\<close>.
\<close>

theorem read_time_state_unbound:
  "description_entered ''desc'' (Some essay_titled) =
     \<lparr>user_data = Some (essay_titled\<lparr>description := Some ''desc''\<rparr>),
      replies = [Ask_read_time],
      returned = Inl (NameError ''ENTERING_READ_TIME'')\<rparr>
   \<and> read_time_entered ''abc'' (Some essay_described) =
     \<lparr>user_data = Some essay_described, replies = [Invalid_read_time],
      returned = Inl (NameError ''ENTERING_READ_TIME'')\<rparr>
   \<and> read_time_entered ''5'' (Some essay_described) =
     \<lparr>user_data = Some (essay_described\<lparr>read_time := Some 5\<rparr>),
      replies = [Read_time_set 5], returned = Inr 3\<rparr>"
proof -
  have a: "content_type essay_titled = ''essays''" by (simp add: essay_titled_def)
  have b: "py_int ''abc'' = None" by code_simp
  have c: "py_int ''5'' = Some 5" by code_simp
  show ?thesis
    using description_entered_essay [OF a] read_time_entered_invalid [OF b]
      read_time_entered_parsed [OF c]
    by simp
qed

section \<open>File names of an empty slug\<close>

lemma slugify_punctuation: "slugify ''!!!'' = []"
  by code_simp

text \<open>
  Claim C10, at the input where the code departs from it. For a blog record with the
  title \<^verbatim>\<open>!!!\<close> the slug is empty and \<open>generate_filename\<close> returns \<^verbatim>\<open>.md\<close>; but
  \<^verbatim>\<open>os.path.splitext\<close> takes the whole of \<^verbatim>\<open>.md\<close> as the root, so
  \<open>get_full_filename\<close> returns \<^verbatim>\<open>.md.md\<close>, and \<^verbatim>\<open>.md.mdx\<close> when the content holds
  angle brackets.
\<close>

theorem empty_slug_file_names:
  "generate_filename ''20240501-120000'' blog_punctuation = Inr ''.md''
   \<and> get_full_filename ''20240501-120000'' blog_punctuation = Inr ''.md.md''
   \<and> get_full_filename ''20240501-120000'' (blog_punctuation\<lparr>content := Some ''<b>x</b>''\<rparr>)
       = Inr ''.md.mdx''"
proof -
  have a: "generate_filename ''20240501-120000'' blog_punctuation = Inr ''.md''"
    by (simp add: generate_filename_def blog_punctuation_def slugify_punctuation)
  have b: "generate_filename ''20240501-120000'' (blog_punctuation\<lparr>content := Some ''<b>x</b>''\<rparr>)
             = Inr ''.md''"
    by (simp add: generate_filename_def blog_punctuation_def slugify_punctuation)
  have c: "get_file_extension blog_punctuation = Inr ''md''"
    by (simp add: get_file_extension_def blog_punctuation_def py_contains_def)
  have d: "get_file_extension (blog_punctuation\<lparr>content := Some ''<b>x</b>''\<rparr>) = Inr ''mdx''"
    by (simp add: get_file_extension_def blog_punctuation_def py_contains_def)
  show ?thesis
    by (simp add: get_full_filename_def a b c d splitext_dot_md)
qed

section \<open>Publishing\<close>






end
